theory Spec2Isabelle
  imports Main
begin

section \<open>URL schemes in the info-plist document\<close>

subsection \<open>Data model\<close>

text \<open>
  The scheme functions work on values typed by two declarations that the functions import:
  \<^verbatim>\<open>URLScheme = { CFBundleURLName?: string; CFBundleURLSchemes: string[] }\<close> and
  \<^verbatim>\<open>InfoPlist = { CFBundleURLTypes?: URLScheme[]; ...every other key... }\<close>.
  An optional field is an \<open>option\<close> (\<open>None\<close> is JavaScript's \<open>undefined\<close>), an array a list.
  Under these types \<^verbatim>\<open>Array.isArray(infoPlist.CFBundleURLTypes)\<close> and the truthiness test
  \<^verbatim>\<open>!infoPlist.CFBundleURLTypes\<close> both only tell a present array (also an empty one) from an
  absent field, and \<^verbatim>\<open>Array.isArray(CFBundleURLSchemes)\<close> always holds.

  The keys of the document other than \<open>CFBundleURLTypes\<close> are kept, in order, with their
  values; no function below reads them.
\<close>

datatype JSONValue =
    JNull
  | JBool bool
  | JNumber int
  | JString string
  | JArray "JSONValue list"
  | JObject "(string \<times> JSONValue) list"

record URLScheme =
  CFBundleURLName :: "string option"
  CFBundleURLSchemes :: "string list"

record InfoPlist =
  CFBundleURLTypes :: "URLScheme list option"
  otherKeys :: "(string \<times> JSONValue) list"

text \<open>
  The \<open>scheme\<close> field of a config is absent, one string, or an array. The declared element
  type of the array is string, but \<open>getScheme\<close> filters the array by \<^verbatim>\<open>typeof\<close> at run time,
  so the elements are modelled as arbitrary JSON values.
\<close>

datatype SchemeField =
    SchemeUndefined
  | SchemeString string
  | SchemeArray "JSONValue list"

text \<open>
  \<open>getScheme\<close> accepts any object with an optional \<open>scheme\<close> field; the record is extended
  to the \<open>ios\<close> section (with its bundle identifier) and to the config \<open>setScheme\<close> takes.
\<close>

record SchemeConfig =
  scheme :: SchemeField

record IosConfig = SchemeConfig +
  bundleIdentifier :: "string option"

record ExpoConfig = SchemeConfig +
  ios :: "IosConfig option"

subsection \<open>JavaScript primitives used by the functions\<close>

text \<open>\<^verbatim>\<open>typeof value === 'string'\<close>, the \<open>validate\<close> function local to \<open>getScheme\<close>.\<close>

fun validate :: "JSONValue \<Rightarrow> bool" where
  "validate (JString s) = True"
| "validate v = False"

text \<open>The string inside a value that passed \<open>validate\<close>.\<close>

fun stringOf :: "JSONValue \<Rightarrow> string" where
  "stringOf (JString s) = s"
| "stringOf v = []"

text \<open>
  Truthiness of a \<^verbatim>\<open>string | null | undefined\<close>: only a non-empty string is truthy, so
  \<^verbatim>\<open>!scheme\<close> holds for \<open>null\<close> and for the empty string.
\<close>

fun truthy :: "string option \<Rightarrow> bool" where
  "truthy None = False"
| "truthy (Some s) = (s \<noteq> [])"

text \<open>
  \<^verbatim>\<open>Array.prototype.indexOf\<close>: the index of the first element equal to the argument,
  \<open>-1\<close> when there is none.
\<close>

fun indexOfFrom :: "nat \<Rightarrow> string list \<Rightarrow> string \<Rightarrow> int" where
  "indexOfFrom k [] s = -1"
| "indexOfFrom k (x # xs) s = (if x = s then int k else indexOfFrom (Suc k) xs s)"

definition indexOf :: "string list \<Rightarrow> string \<Rightarrow> int" where
  "indexOf xs s = indexOfFrom 0 xs s"

text \<open>
  \<^verbatim>\<open>xs.splice(index, 1)\<close> for \<open>0 \<le> index\<close>: the array without the element at \<open>index\<close>
  (the source calls it only under \<open>index > -1\<close>).
\<close>

definition splice1 :: "int \<Rightarrow> 'a list \<Rightarrow> 'a list" where
  "splice1 index xs = take (nat index) xs @ drop (nat index + 1) xs"

text \<open>\<^verbatim>\<open>Array.prototype.includes\<close> on an array of strings.\<close>

fun arrayIncludes :: "string list \<Rightarrow> string \<Rightarrow> bool" where
  "arrayIncludes [] s = False"
| "arrayIncludes (x # xs) s = (x = s \<or> arrayIncludes xs s)"

text \<open>
  \<^verbatim>\<open>.filter(Boolean)\<close> on the array the callback of \<open>removeScheme\<close> builds: its elements
  are groups (objects, truthy) or \<open>undefined\<close>.
\<close>

fun filterBoolean :: "'a option list \<Rightarrow> 'a list" where
  "filterBoolean [] = []"
| "filterBoolean (None # xs) = filterBoolean xs"
| "filterBoolean (Some x # xs) = x # filterBoolean xs"

subsection \<open>The scheme functions\<close>

definition getScheme :: "'a SchemeConfig_scheme \<Rightarrow> string list" where
  "getScheme config =
     (case scheme config of
        SchemeArray vs \<Rightarrow> map stringOf (filter validate vs)
      | SchemeString s \<Rightarrow> [s]
      | SchemeUndefined \<Rightarrow> [])"

text \<open>The empty object \<^verbatim>\<open>{}\<close> that stands in for a missing \<open>ios\<close> section.\<close>

definition emptyIos :: IosConfig where
  "emptyIos = \<lparr>scheme = SchemeUndefined, bundleIdentifier = None\<rparr>"

text \<open>
  The list \<open>setScheme\<close> collects before it decides: the schemes of the config, those of its
  \<open>ios\<close> section, and the bundle identifier when it is truthy.
\<close>

definition collectSchemes :: "ExpoConfig \<Rightarrow> string list" where
  "collectSchemes config =
     (let scheme0 = getScheme config @
                    getScheme (case ios config of None \<Rightarrow> emptyIos | Some i \<Rightarrow> i)
      in case ios config of
           None \<Rightarrow> scheme0
         | Some i \<Rightarrow>
             (case bundleIdentifier i of
                None \<Rightarrow> scheme0
              | Some b \<Rightarrow> if truthy (Some b) then scheme0 @ [b] else scheme0))"

definition setScheme :: "ExpoConfig \<Rightarrow> InfoPlist \<Rightarrow> InfoPlist" where
  "setScheme config infoPlist =
     (let schemes = collectSchemes config
      in if length schemes = 0 then infoPlist
         else infoPlist\<lparr>CFBundleURLTypes :=
                Some [\<lparr>CFBundleURLName = None, CFBundleURLSchemes = schemes\<rparr>]\<rparr>)"

definition appendScheme :: "string option \<Rightarrow> InfoPlist \<Rightarrow> InfoPlist" where
  "appendScheme sch infoPlist =
     (case sch of
        None \<Rightarrow> infoPlist
      | Some s \<Rightarrow>
          if \<not> truthy (Some s) then infoPlist
          else (case CFBundleURLTypes infoPlist of
                  None \<Rightarrow> setScheme \<lparr>scheme = SchemeString s, ios = None\<rparr> infoPlist
                | Some existingSchemes \<Rightarrow>
                    infoPlist\<lparr>CFBundleURLTypes :=
                      Some (existingSchemes @
                            [\<lparr>CFBundleURLName = None, CFBundleURLSchemes = [s]\<rparr>])\<rparr>))"

text \<open>
  The callback \<open>removeScheme\<close> maps over the groups: it splices the first occurrence of the
  scheme out of the group and yields \<open>undefined\<close> when that empties the group.
\<close>

definition removeFromGroup :: "string \<Rightarrow> URLScheme \<Rightarrow> URLScheme option" where
  "removeFromGroup s bundleUrlType =
     (let index = indexOf (CFBundleURLSchemes bundleUrlType) s
      in if index > -1
         then (let spliced = bundleUrlType\<lparr>CFBundleURLSchemes :=
                               splice1 index (CFBundleURLSchemes bundleUrlType)\<rparr>
               in if length (CFBundleURLSchemes spliced) = 0 then None else Some spliced)
         else Some bundleUrlType)"

text \<open>
  \<open>removeScheme\<close> updates the document and its groups in place and returns the document; the
  model returns the updated document. Documents are trees, as a parsed property list is: no
  group object occurs at two places of the list.
\<close>

definition removeScheme :: "string option \<Rightarrow> InfoPlist \<Rightarrow> InfoPlist" where
  "removeScheme sch infoPlist =
     (case sch of
        None \<Rightarrow> infoPlist
      | Some s \<Rightarrow>
          if \<not> truthy (Some s) then infoPlist
          else (case CFBundleURLTypes infoPlist of
                  None \<Rightarrow> infoPlist
                | Some types \<Rightarrow>
                    infoPlist\<lparr>CFBundleURLTypes :=
                      Some (filterBoolean (map (removeFromGroup s) types))\<rparr>))"

definition hasScheme :: "string \<Rightarrow> InfoPlist \<Rightarrow> bool" where
  "hasScheme s infoPlist =
     (case CFBundleURLTypes infoPlist of
        None \<Rightarrow> False
      | Some existingSchemes \<Rightarrow>
          list_ex (\<lambda>g. arrayIncludes (CFBundleURLSchemes g) s) existingSchemes)"

definition getSchemesFromPlist :: "InfoPlist \<Rightarrow> string list" where
  "getSchemesFromPlist infoPlist =
     (case CFBundleURLTypes infoPlist of
        Some types \<Rightarrow> foldl (\<lambda>schemes g. schemes @ CFBundleURLSchemes g) [] types
      | None \<Rightarrow> [])"

section \<open>The version-control helper\<close>

subsection \<open>The environment and its effects\<close>

text \<open>
  The helper talks to three things outside the program: \<^verbatim>\<open>which.sync\<close>, the subprocess
  runner \<^verbatim>\<open>spawnAsync\<close> and the interactive \<^verbatim>\<open>prompts\<close>. Their answers are the environment
  of a run. A thrown error (a rejected promise) is the \<open>Inl\<close> of a sum; every effect is
  appended to a trace that is passed through the run.
\<close>

datatype Error =
    Error string
  | DirtyGitTreeError string
  | CommandError string
  | SpawnRejected string "string list"
  | PromptRejected

datatype Event =
    Log string
  | NewLine
  | Spawn string "string list"
  | PromptConfirm string
  | PromptText string string

text \<open>
  \<^item> \<open>whichGit\<close>: what \<^verbatim>\<open>which.sync('git', { nothrow: true })\<close> returns, a path or \<open>null\<close>;
  \<^item> \<open>spawnResult cmd args\<close>: the standard output of the process when \<^verbatim>\<open>spawnAsync\<close>
    resolves, \<open>None\<close> when it rejects (the process could not run or failed);
  \<^item> \<open>confirmResult message\<close>: the answer to a confirm prompt, or the error the prompt throws;
  \<^item> \<open>textResult message initial validate\<close>: the answer to a text prompt that was given
    the \<open>initial\<close> value and the \<open>validate\<close> callback, or the error the prompt throws.

  A confirm prompt that the operator dismisses leaves its answer \<open>undefined\<close>, which the
  tests \<^verbatim>\<open>!confirmInit\<close> and \<^verbatim>\<open>!confirm\<close> treat like \<open>false\<close>: it is the answer \<open>False\<close>
  here. A dismissed text prompt counts as a thrown error.

  Within one run of a function below no two subprocess calls and no two prompts of a kind
  have the same arguments, so answers that depend on the arguments alone cover every run.
\<close>

record Env =
  whichGit :: "string option"
  spawnResult :: "string \<Rightarrow> string list \<Rightarrow> string option"
  confirmResult :: "string \<Rightarrow> Error + bool"
  textResult :: "string \<Rightarrow> string \<Rightarrow> (string \<Rightarrow> bool) \<Rightarrow> Error + string"

definition spawnAsync ::
  "Env \<Rightarrow> string \<Rightarrow> string list \<Rightarrow> Event list \<Rightarrow> (Error + string) \<times> Event list" where
  "spawnAsync env cmd args tr =
     (case spawnResult env cmd args of
        None \<Rightarrow> (Inl (SpawnRejected cmd args), tr @ [Spawn cmd args])
      | Some out \<Rightarrow> (Inr out, tr @ [Spawn cmd args]))"

definition promptsConfirm ::
  "Env \<Rightarrow> string \<Rightarrow> Event list \<Rightarrow> (Error + bool) \<times> Event list" where
  "promptsConfirm env message tr = (confirmResult env message, tr @ [PromptConfirm message])"

definition promptsText ::
  "Env \<Rightarrow> string \<Rightarrow> string \<Rightarrow> (string \<Rightarrow> bool) \<Rightarrow> Event list \<Rightarrow> (Error + string) \<times> Event list" where
  "promptsText env message initial validateInput tr =
     (textResult env message initial validateInput, tr @ [PromptText message initial])"

subsection \<open>The helper functions\<close>

definition doesGitRepoExist :: "Env \<Rightarrow> Event list \<Rightarrow> bool \<times> Event list" where
  "doesGitRepoExist env tr =
     (case spawnAsync env ''git'' [''rev-parse'', ''--git-dir''] tr of
        (Inr out, tr1) \<Rightarrow> (True, tr1)
      | (Inl err, tr1) \<Rightarrow> (False, tr1))"

definition ensureGitRepoExists :: "Env \<Rightarrow> Event list \<Rightarrow> (Error + unit) \<times> Event list" where
  "ensureGitRepoExists env tr =
     (if \<not> truthy (whichGit env)
      then (Inl (Error ''git command has not been found, install it before proceeding''), tr)
      else
        case doesGitRepoExist env tr of
          (True, tr1) \<Rightarrow> (Inr (), tr1)
        | (False, tr1) \<Rightarrow>
           (let tr2 = tr1 @
                  [Log ''It looks like you haven't initialized the git repository yet.'',
                   Log ''EAS Build require you to use a git repository for your project.'']
            in case promptsConfirm env
                      ''Would you like to run 'git init' in the current directory?'' tr2 of
                 (Inl e, tr3) \<Rightarrow> (Inl e, tr3)
               | (Inr confirmInit, tr3) \<Rightarrow>
                   if \<not> confirmInit
                   then (Inl (Error ''A git repository is required for building your project. Initialize it and run this command again.''), tr3)
                   else
                    (case spawnAsync env ''git'' [''init''] tr3 of
                       (Inl e, tr4) \<Rightarrow> (Inl e, tr4)
                     | (Inr out, tr4) \<Rightarrow>
                        (let tr5 = tr4 @
                               [Log ''We're going to make an initial commit for you repository.'']
                         in case promptsText env ''Commit message:'' ''Initial commit''
                                   (\<lambda>input. input \<noteq> []) tr5 of
                              (Inl e, tr6) \<Rightarrow> (Inl e, tr6)
                            | (Inr message, tr6) \<Rightarrow>
                               (case spawnAsync env ''git'' [''add'', ''-A''] tr6 of
                                  (Inl e, tr7) \<Rightarrow> (Inl e, tr7)
                                | (Inr out1, tr7) \<Rightarrow>
                                   (case spawnAsync env ''git'' [''commit'', ''-m'', message] tr7 of
                                      (Inl e, tr8) \<Rightarrow> (Inl e, tr8)
                                    | (Inr out2, tr8) \<Rightarrow> (Inr (), tr8)))))))"

definition ensureGitStatusIsCleanAsync ::
  "Env \<Rightarrow> Event list \<Rightarrow> (Error + unit) \<times> Event list" where
  "ensureGitStatusIsCleanAsync env tr =
     (case spawnAsync env ''git'' [''status'', ''-s'', ''-uno''] tr of
        (Inl e, tr1) \<Rightarrow> (Inl e, tr1)
      | (Inr changes, tr1) \<Rightarrow>
          if length changes > 0
          then (Inl (DirtyGitTreeError
                  ''Please commit all changes before building your project. Aborting...''), tr1)
          else (Inr (), tr1))"

definition showDiffAsync :: "Env \<Rightarrow> Event list \<Rightarrow> (Error + unit) \<times> Event list" where
  "showDiffAsync env tr =
     (case spawnAsync env ''git'' [''--no-pager'', ''diff''] tr of
        (Inl e, tr1) \<Rightarrow> (Inl e, tr1)
      | (Inr out, tr1) \<Rightarrow> (Inr (), tr1))"

definition reviewAndCommitChangesAsync ::
  "Env \<Rightarrow> string \<Rightarrow> bool \<Rightarrow> Event list \<Rightarrow> (Error + unit) \<times> Event list" where
  "reviewAndCommitChangesAsync env commitMessage nonInteractive tr =
     (if nonInteractive
      then (Inl (CommandError ''Cannot commit changes when --non-interactive is specified. Run the command in interactive mode to review and commit changes.''), tr)
      else
        let tr1 = tr @
              [Log ''Please review the following changes and pass the message to make the commit.'',
               NewLine]
        in case showDiffAsync env tr1 of
             (Inl e, tr2) \<Rightarrow> (Inl e, tr2)
           | (Inr u, tr2) \<Rightarrow>
              (let tr3 = tr2 @ [NewLine]
               in case promptsConfirm env ''Can we commit these changes for you?'' tr3 of
                    (Inl e, tr4) \<Rightarrow> (Inl e, tr4)
                  | (Inr confirm, tr4) \<Rightarrow>
                      if \<not> confirm
                      then (Inl (Error ''Aborting commit. Please review and commit the changes manually.''), tr4)
                      else
                       (case promptsText env ''Commit message:'' commitMessage
                               (\<lambda>input. input \<noteq> []) tr4 of
                          (Inl e, tr5) \<Rightarrow> (Inl e, tr5)
                        | (Inr message, tr5) \<Rightarrow>
                           (case spawnAsync env ''git'' [''add'', ''-u''] tr5 of
                              (Inl e, tr6) \<Rightarrow> (Inl e, tr6)
                            | (Inr out1, tr6) \<Rightarrow>
                               (case spawnAsync env ''git'' [''commit'', ''-m'', message] tr6 of
                                  (Inl e, tr7) \<Rightarrow> (Inl e, tr7)
                                | (Inr out2, tr7) \<Rightarrow> (Inr (), tr7))))))"

section \<open>Notions used to state the properties\<close>

text \<open>The scheme groups of a document: the \<open>CFBundleURLTypes\<close> list, empty when the key is absent.\<close>

definition groups :: "InfoPlist \<Rightarrow> URLScheme list" where
  "groups infoPlist = (case CFBundleURLTypes infoPlist of None \<Rightarrow> [] | Some types \<Rightarrow> types)"

text \<open>The invariant of the data model: every scheme string stored in a group is non-empty.\<close>

definition schemesNonEmpty :: "InfoPlist \<Rightarrow> bool" where
  "schemesNonEmpty infoPlist =
     list_all (\<lambda>g. list_all (\<lambda>s. s \<noteq> []) (CFBundleURLSchemes g)) (groups infoPlist)"

text \<open>
  A version-control mutation: a subprocess call whose subcommand is \<open>init\<close>, \<open>add\<close> or
  \<open>commit\<close>.
\<close>

fun isMutation :: "Event \<Rightarrow> bool" where
  "isMutation (Spawn cmd (sub # args)) = (sub = ''init'' \<or> sub = ''add'' \<or> sub = ''commit'')"
| "isMutation e = False"

text \<open>The events a run appended to the trace \<open>tr\<close> it started from.\<close>

definition newEvents :: "Event list \<Rightarrow> 'a \<times> Event list \<Rightarrow> Event list" where
  "newEvents tr res = drop (length tr) (snd res)"

text \<open>
  An operator at a text prompt, as a script: the lines typed and submitted one after the
  other. The prompt takes its \<open>initial\<close> value for a line submitted empty
  (\<^verbatim>\<open>value || initial\<close>), hands the resulting value to the \<open>validate\<close> callback it was given
  and asks again when the callback refuses; it resolves to the first value the callback
  accepts, and it is aborted (here: throws) when the operator submits nothing more.
\<close>

fun scriptedText ::
  "string list \<Rightarrow> string \<Rightarrow> string \<Rightarrow> (string \<Rightarrow> bool) \<Rightarrow> Error + string" where
  "scriptedText [] message initial validateInput = Inl PromptRejected"
| "scriptedText (x # xs) message initial validateInput =
     (let submitted = (if x = [] then initial else x)
      in if validateInput submitted then Inr submitted
         else scriptedText xs message initial validateInput)"

subsection \<open>Example documents and environments\<close>

definition barePlist :: InfoPlist where
  "barePlist = \<lparr>CFBundleURLTypes = None, otherKeys = [(''CFBundleName'', JString ''app'')]\<rparr>"

definition mainGroup :: URLScheme where
  "mainGroup = \<lparr>CFBundleURLName = Some ''main'', CFBundleURLSchemes = [''myapp'', ''exp'', ''myapp'']\<rparr>"

definition loginGroup :: URLScheme where
  "loginGroup = \<lparr>CFBundleURLName = None, CFBundleURLSchemes = [''fb123'']\<rparr>"

definition examplePlist :: InfoPlist where
  "examplePlist =
     \<lparr>CFBundleURLTypes = Some [mainGroup, loginGroup],
      otherKeys = [(''CFBundleName'', JString ''app'')]\<rparr>"

definition exampleConfig :: ExpoConfig where
  "exampleConfig =
     \<lparr>scheme = SchemeArray [JString ''myapp'', JNumber 7, JString ''exp''],
      ios = Some \<lparr>scheme = SchemeString ''ios-only'', bundleIdentifier = Some ''com.example.app''\<rparr>\<rparr>"

definition emptyBundleConfig :: ExpoConfig where
  "emptyBundleConfig =
     \<lparr>scheme = SchemeString ''myapp'',
      ios = Some \<lparr>scheme = SchemeUndefined, bundleIdentifier = Some []\<rparr>\<rparr>"

definition silentConfig :: ExpoConfig where
  "silentConfig =
     \<lparr>scheme = SchemeArray [JNumber 7],
      ios = Some \<lparr>scheme = SchemeUndefined, bundleIdentifier = Some []\<rparr>\<rparr>"

text \<open>
  A directory without a repository (\<open>rev-parse\<close> fails, every other subprocess succeeds with
  no output), and an operator who declines every confirm prompt.
\<close>

definition noRepoDeclineEnv :: Env where
  "noRepoDeclineEnv =
     \<lparr>whichGit = Some ''/usr/bin/git'',
      spawnResult = (\<lambda>cmd args. if args = [''rev-parse'', ''--git-dir''] then None else Some []),
      confirmResult = (\<lambda>message. Inr False),
      textResult = scriptedText [''first'']\<rparr>"

text \<open>The same directory with an operator who confirms and commits with \<open>first\<close>.\<close>

definition noRepoConfirmEnv :: Env where
  "noRepoConfirmEnv =
     \<lparr>whichGit = Some ''/usr/bin/git'',
      spawnResult = (\<lambda>cmd args. if args = [''rev-parse'', ''--git-dir''] then None else Some []),
      confirmResult = (\<lambda>message. Inr True),
      textResult = scriptedText [''first'']\<rparr>"

text \<open>
  The same directory with an operator who confirms, then submits an empty line at the text
  prompt and, if asked again, the line \<open>wip\<close>.
\<close>

definition emptyThenWipEnv :: Env where
  "emptyThenWipEnv =
     \<lparr>whichGit = Some ''/usr/bin/git'',
      spawnResult = (\<lambda>cmd args. if args = [''rev-parse'', ''--git-dir''] then None else Some []),
      confirmResult = (\<lambda>message. Inr True),
      textResult = scriptedText [[], ''wip'']\<rparr>"

text \<open>A repository whose \<open>status\<close> subcommand reports one modified file.\<close>

definition dirtyTreeEnv :: Env where
  "dirtyTreeEnv =
     \<lparr>whichGit = Some ''/usr/bin/git'',
      spawnResult = (\<lambda>cmd args. if args = [''status'', ''-s'', ''-uno''] then Some '' M app.json''
                                  else Some []),
      confirmResult = (\<lambda>message. Inr True),
      textResult = scriptedText [''wip'']\<rparr>"

text \<open>A repository with a clean working tree: every subprocess succeeds with no output.\<close>

definition cleanTreeEnv :: Env where
  "cleanTreeEnv =
     \<lparr>whichGit = Some ''/usr/bin/git'',
      spawnResult = (\<lambda>cmd args. Some []),
      confirmResult = (\<lambda>message. Inr True),
      textResult = scriptedText [''wip'']\<rparr>"

section \<open>Properties of the scheme functions\<close>

subsection \<open>The JavaScript primitives\<close>

lemma indexOfFrom_notin: "s \<notin> set xs \<Longrightarrow> indexOfFrom k xs s = -1"
  by (induction xs arbitrary: k) auto

lemma indexOfFrom_in:
  "s \<in> set xs \<Longrightarrow> indexOfFrom k xs s = int k + int (length (takeWhile (\<lambda>x. x \<noteq> s) xs))"
  by (induction xs arbitrary: k) auto

lemma indexOf_gt: "(indexOf xs s > -1) = (s \<in> set xs)"
proof (cases "s \<in> set xs")
  case True
  then show ?thesis using indexOfFrom_in[of s xs 0] by (simp add: indexOf_def)
next
  case False
  then show ?thesis using indexOfFrom_notin[of s xs 0] by (simp add: indexOf_def)
qed

lemma remove1_takeWhile:
  "s \<in> set xs \<Longrightarrow>
   take (length (takeWhile (\<lambda>x. x \<noteq> s) xs)) xs @
   drop (Suc (length (takeWhile (\<lambda>x. x \<noteq> s) xs))) xs = remove1 s xs"
  by (induction xs) auto

text \<open>Splicing at the index \<open>indexOf\<close> found removes the first occurrence.\<close>

lemma splice1_indexOf: "s \<in> set xs \<Longrightarrow> splice1 (indexOf xs s) xs = remove1 s xs"
  using indexOfFrom_in[of s xs 0] remove1_takeWhile[of s xs]
  by (simp add: splice1_def indexOf_def)

lemma arrayIncludes_set: "arrayIncludes xs s = (s \<in> set xs)"
  by (induction xs) auto

lemma set_filterBoolean: "set (filterBoolean xs) = {x. Some x \<in> set xs}"
  by (induction xs rule: filterBoolean.induct) auto

lemma filterBoolean_append: "filterBoolean (xs @ ys) = filterBoolean xs @ filterBoolean ys"
  by (induction xs rule: filterBoolean.induct) auto

lemma count_list_remove1:
  "s \<in> set xs \<Longrightarrow> count_list (remove1 s xs) s = count_list xs s - 1"
  by (induction xs) auto

lemma count_list_pos_iff: "(0 < count_list xs s) = (s \<in> set xs)"
  by (induction xs) auto

subsection \<open>The callback of removeScheme\<close>

lemma removeFromGroup_eq:
  "removeFromGroup s g =
     (if s \<in> set (CFBundleURLSchemes g)
      then (if remove1 s (CFBundleURLSchemes g) = [] then None
            else Some (g\<lparr>CFBundleURLSchemes := remove1 s (CFBundleURLSchemes g)\<rparr>))
      else Some g)"
  by (simp add: removeFromGroup_def indexOf_gt splice1_indexOf Let_def)

lemma removeFromGroup_subset:
  "removeFromGroup s g = Some g' \<Longrightarrow> set (CFBundleURLSchemes g') \<subseteq> set (CFBundleURLSchemes g)"
  using set_remove1_subset[of s "CFBundleURLSchemes g"]
  by (auto simp: removeFromGroup_eq split: if_splits)

lemma filterBoolean_unchanged:
  "\<forall>g \<in> set gs. s \<notin> set (CFBundleURLSchemes g) \<Longrightarrow>
   filterBoolean (map (removeFromGroup s) gs) = gs"
  by (induction gs) (auto simp: removeFromGroup_eq)

lemma groups_removeScheme_subset:
  assumes "g' \<in> set (groups (removeScheme sch infoPlist))"
  shows "\<exists>g \<in> set (groups infoPlist). set (CFBundleURLSchemes g') \<subseteq> set (CFBundleURLSchemes g)"
proof (cases "removeScheme sch infoPlist = infoPlist")
  case True
  with assms show ?thesis by auto
next
  case False
  then obtain s types where s: "sch = Some s" "s \<noteq> []" "CFBundleURLTypes infoPlist = Some types"
    by (auto simp: removeScheme_def split: option.splits if_splits)
  then have "Some g' \<in> set (map (removeFromGroup s) types)"
    using assms by (simp add: removeScheme_def groups_def set_filterBoolean)
  then obtain g where "g \<in> set types" "removeFromGroup s g = Some g'"
    by auto
  then show ?thesis
    using s removeFromGroup_subset[of s g g'] by (auto simp: groups_def)
qed

lemma hasScheme_groups:
  "hasScheme s infoPlist = (\<exists>g \<in> set (groups infoPlist). s \<in> set (CFBundleURLSchemes g))"
  by (auto simp: hasScheme_def groups_def list_ex_iff arrayIncludes_set split: option.splits)

lemma schemesNonEmpty_iff:
  "schemesNonEmpty infoPlist =
     (\<forall>g \<in> set (groups infoPlist). [] \<notin> set (CFBundleURLSchemes g))"
  by (auto simp: schemesNonEmpty_def list_all_iff)

subsection \<open>The claims about the scheme functions\<close>

text \<open>
  Claim C1. \<open>hasScheme\<close> returns true exactly when the scheme is an element of the
  \<open>CFBundleURLSchemes\<close> list of some group of the document's \<open>CFBundleURLTypes\<close> list; when
  \<open>CFBundleURLTypes\<close> is absent it returns false. (Under the document's type an absent key is
  the only way for \<open>CFBundleURLTypes\<close> not to be a list.)
\<close>

theorem hasScheme_iff:
  "hasScheme s infoPlist =
     (\<exists>types. CFBundleURLTypes infoPlist = Some types \<and>
              (\<exists>g \<in> set types. s \<in> set (CFBundleURLSchemes g)))
   \<and> (CFBundleURLTypes infoPlist = None \<longrightarrow> \<not> hasScheme s infoPlist)"
  by (auto simp: hasScheme_def list_ex_iff arrayIncludes_set split: option.splits)

text \<open>Claim C1 at a document without \<open>CFBundleURLTypes\<close> and at the example document.\<close>

theorem hasScheme_iff_witness:
  "CFBundleURLTypes barePlist = None \<and> \<not> hasScheme ''fb123'' barePlist \<and>
   hasScheme ''fb123'' examplePlist \<and> \<not> hasScheme ''fb'' examplePlist"
  using hasScheme_iff[of "''fb123''" barePlist] hasScheme_iff[of "''fb123''" examplePlist]
    hasScheme_iff[of "''fb''" examplePlist]
  by (simp add: barePlist_def examplePlist_def mainGroup_def loginGroup_def)

text \<open>
  Claim C2. For a non-null, non-empty scheme, every group present in \<open>CFBundleURLTypes\<close>
  before \<open>appendScheme\<close> is present in the result, unchanged and in the same order: the
  result's list is the old list followed by one new group holding the scheme. The other keys
  of the document are unchanged.
\<close>

theorem appendScheme_keeps_groups:
  assumes "s \<noteq> []"
  shows "CFBundleURLTypes (appendScheme (Some s) infoPlist) =
           Some (groups infoPlist @ [\<lparr>CFBundleURLName = None, CFBundleURLSchemes = [s]\<rparr>])
       \<and> take (length (groups infoPlist)) (groups (appendScheme (Some s) infoPlist)) =
           groups infoPlist
       \<and> otherKeys (appendScheme (Some s) infoPlist) = otherKeys infoPlist"
  using assms
  by (auto simp: appendScheme_def groups_def setScheme_def collectSchemes_def getScheme_def
      emptyIos_def split: option.splits)

text \<open>Claim C2 at the example document, and at a document without \<open>CFBundleURLTypes\<close>.\<close>

theorem appendScheme_keeps_groups_witness:
  "''exp+app'' \<noteq> [] \<and>
   CFBundleURLTypes (appendScheme (Some ''exp+app'') examplePlist) =
     Some [mainGroup, loginGroup, \<lparr>CFBundleURLName = None, CFBundleURLSchemes = [''exp+app'']\<rparr>] \<and>
   CFBundleURLTypes (appendScheme (Some ''exp+app'') barePlist) =
     Some [\<lparr>CFBundleURLName = None, CFBundleURLSchemes = [''exp+app'']\<rparr>]"
proof -
  have h: "''exp+app'' \<noteq> []" by simp
  show ?thesis
    using appendScheme_keeps_groups[OF h, of examplePlist]
      appendScheme_keeps_groups[OF h, of barePlist]
    by (simp add: groups_def examplePlist_def barePlist_def)
qed

text \<open>
  Claim C3, amended. For a non-empty scheme string that appears in exactly one group (the one
  at index \<open>i\<close>), if removing the scheme from that group (one occurrence, as \<open>removeScheme\<close>
  does) leaves its \<open>CFBundleURLSchemes\<close> empty, then \<open>removeScheme\<close> removes the whole
  group: the result's \<open>CFBundleURLTypes\<close> is the old list without the element at \<open>i\<close>, and
  the group is no longer a member of it.
\<close>

theorem removeScheme_drops_emptied_group:
  assumes nonempty: "s \<noteq> []"
    and types: "CFBundleURLTypes infoPlist = Some types"
    and i: "i < length types"
    and here: "s \<in> set (CFBundleURLSchemes (types ! i))"
    and only: "\<forall>j < length types. j \<noteq> i \<longrightarrow> s \<notin> set (CFBundleURLSchemes (types ! j))"
    and emptied: "remove1 s (CFBundleURLSchemes (types ! i)) = []"
  shows "CFBundleURLTypes (removeScheme (Some s) infoPlist) =
           Some (take i types @ drop (Suc i) types)
       \<and> types ! i \<notin> set (groups (removeScheme (Some s) infoPlist))"
proof -
  have split: "types = take i types @ types ! i # drop (Suc i) types"
    using i by (simp add: id_take_nth_drop)
  have before: "\<forall>g \<in> set (take i types). s \<notin> set (CFBundleURLSchemes g)"
  proof
    fix g assume "g \<in> set (take i types)"
    then obtain j where "j < i" "g = types ! j"
      using i by (auto simp: in_set_conv_nth)
    then show "s \<notin> set (CFBundleURLSchemes g)" using only i by auto
  qed
  have after: "\<forall>g \<in> set (drop (Suc i) types). s \<notin> set (CFBundleURLSchemes g)"
  proof
    fix g assume "g \<in> set (drop (Suc i) types)"
    then obtain j where "j < length types - Suc i" "g = types ! (Suc i + j)"
      by (auto simp: in_set_conv_nth)
    then show "s \<notin> set (CFBundleURLSchemes g)" using only by auto
  qed
  have "filterBoolean (map (removeFromGroup s) types) =
        filterBoolean (map (removeFromGroup s) (take i types)) @
        filterBoolean (map (removeFromGroup s) (types ! i # drop (Suc i) types))"
    by (subst split) (simp only: map_append filterBoolean_append)
  also have "\<dots> = take i types @ drop (Suc i) types"
    using before after here emptied
    by (simp add: filterBoolean_unchanged removeFromGroup_eq)
  finally have fb:
    "filterBoolean (map (removeFromGroup s) types) = take i types @ drop (Suc i) types" .
  have res: "CFBundleURLTypes (removeScheme (Some s) infoPlist) =
               Some (take i types @ drop (Suc i) types)"
    using nonempty types fb by (simp add: removeScheme_def)
  have "types ! i \<notin> set (take i types @ drop (Suc i) types)"
    using before after here by auto
  then have "types ! i \<notin> set (groups (removeScheme (Some s) infoPlist))"
    using res by (simp add: groups_def)
  with res show ?thesis by simp
qed

text \<open>Claim C3, amended, at the example document: removing \<open>fb123\<close> removes the second group.\<close>

theorem removeScheme_drops_emptied_group_witness:
  "''fb123'' \<noteq> [] \<and>
   CFBundleURLTypes examplePlist = Some [mainGroup, loginGroup] \<and>
   (1::nat) < length [mainGroup, loginGroup] \<and>
   ''fb123'' \<in> set (CFBundleURLSchemes ([mainGroup, loginGroup] ! 1)) \<and>
   ''fb123'' \<notin> set (CFBundleURLSchemes ([mainGroup, loginGroup] ! 0)) \<and>
   remove1 ''fb123'' (CFBundleURLSchemes ([mainGroup, loginGroup] ! 1)) = [] \<and>
   CFBundleURLTypes (removeScheme (Some ''fb123'') examplePlist) = Some [mainGroup] \<and>
   loginGroup \<notin> set (groups (removeScheme (Some ''fb123'') examplePlist))"
proof -
  have h1: "''fb123'' \<noteq> []" by simp
  have h2: "CFBundleURLTypes examplePlist = Some [mainGroup, loginGroup]"
    by (simp add: examplePlist_def)
  have h3: "(1::nat) < length [mainGroup, loginGroup]" by simp
  have h4: "''fb123'' \<in> set (CFBundleURLSchemes ([mainGroup, loginGroup] ! 1))"
    by (simp add: loginGroup_def)
  have h0: "''fb123'' \<notin> set (CFBundleURLSchemes ([mainGroup, loginGroup] ! 0))"
    by (simp add: mainGroup_def)
  have h5: "\<forall>j < length [mainGroup, loginGroup]. j \<noteq> 1 \<longrightarrow>
              ''fb123'' \<notin> set (CFBundleURLSchemes ([mainGroup, loginGroup] ! j))"
    using h0 by (auto simp: less_Suc_eq)
  have h6: "remove1 ''fb123'' (CFBundleURLSchemes ([mainGroup, loginGroup] ! 1)) = []"
    by (simp add: loginGroup_def)
  show ?thesis
    using h1 h2 h3 h4 h0 h6 removeScheme_drops_emptied_group[OF h1 h2 h3 h4 h5 h6]
    by simp
qed

text \<open>
  Claim C3 as stated fails for the empty scheme string: it is the only scheme of the only
  group, removing it would leave the group empty, and \<open>removeScheme\<close> (which returns at
  \<^verbatim>\<open>if (!scheme)\<close>) keeps the group.
\<close>

theorem removeScheme_empty_string_counterexample:
  "removeScheme (Some [])
     \<lparr>CFBundleURLTypes = Some [\<lparr>CFBundleURLName = None, CFBundleURLSchemes = [[]]\<rparr>],
      otherKeys = []\<rparr> =
     \<lparr>CFBundleURLTypes = Some [\<lparr>CFBundleURLName = None, CFBundleURLSchemes = [[]]\<rparr>],
      otherKeys = []\<rparr>
   \<and> \<lparr>CFBundleURLName = None, CFBundleURLSchemes = [[]]\<rparr>
       \<in> set (groups (removeScheme (Some [])
                 \<lparr>CFBundleURLTypes = Some [\<lparr>CFBundleURLName = None, CFBundleURLSchemes = [[]]\<rparr>],
                  otherKeys = []\<rparr>))
   \<and> remove1 [] (CFBundleURLSchemes \<lparr>CFBundleURLName = None, CFBundleURLSchemes = [[]]\<rparr>) = []"
  by (simp add: removeScheme_def groups_def)

text \<open>
  Claim C4. Round trip: for every document and every scheme string \<open>s\<close>, also the empty one,
  \<open>getSchemesFromPlist\<close> reads exactly \<open>[s]\<close> back from the result of
  \<^verbatim>\<open>setScheme({ scheme: s }, infoPlist)\<close>.
\<close>

theorem getSchemes_setScheme:
  "getSchemesFromPlist (setScheme \<lparr>scheme = SchemeString s, ios = None\<rparr> infoPlist) = [s]"
  by (simp add: getSchemesFromPlist_def setScheme_def collectSchemes_def getScheme_def emptyIos_def)

text \<open>
  Claim C5, amended. Starting from a document whose stored scheme strings are all non-empty,
  \<open>appendScheme\<close> and \<open>removeScheme\<close> yield such a document for every scheme argument
  (\<open>null\<close> and the empty string included), and \<open>setScheme\<close> does when none of the scheme
  strings that \<open>getScheme\<close> reads from the config and from its \<open>ios\<close> section is the empty
  string: the bundle identifier is only added when it is non-empty.
\<close>

theorem invariant_nonempty_preserved:
  assumes "schemesNonEmpty infoPlist"
  shows "schemesNonEmpty (appendScheme sch infoPlist)
       \<and> schemesNonEmpty (removeScheme sch infoPlist)
       \<and> ([] \<notin> set (getScheme config) \<and>
            (case ios config of None \<Rightarrow> True | Some i \<Rightarrow> [] \<notin> set (getScheme i))
            \<longrightarrow> schemesNonEmpty (setScheme config infoPlist))"
proof -
  have a: "schemesNonEmpty (appendScheme sch infoPlist)"
    using assms
    by (auto simp: schemesNonEmpty_iff appendScheme_def groups_def setScheme_def
        collectSchemes_def getScheme_def emptyIos_def split: option.splits)
  have r: "schemesNonEmpty (removeScheme sch infoPlist)"
    unfolding schemesNonEmpty_iff
  proof
    fix g' assume "g' \<in> set (groups (removeScheme sch infoPlist))"
    then obtain g where "g \<in> set (groups infoPlist)"
      "set (CFBundleURLSchemes g') \<subseteq> set (CFBundleURLSchemes g)"
      using groups_removeScheme_subset by blast
    then show "[] \<notin> set (CFBundleURLSchemes g')"
      using assms by (auto simp: schemesNonEmpty_iff)
  qed
  have e: "getScheme emptyIos = []"
    by (simp add: getScheme_def emptyIos_def)
  have c: "[] \<notin> set (collectSchemes config)"
    if "[] \<notin> set (getScheme config)"
      and "case ios config of None \<Rightarrow> True | Some i \<Rightarrow> [] \<notin> set (getScheme i)"
    using that e
    by (cases "ios config") (auto simp: collectSchemes_def Let_def split: option.splits)
  have s: "schemesNonEmpty (setScheme config infoPlist)"
    if "[] \<notin> set (collectSchemes config)"
    using assms that by (auto simp: schemesNonEmpty_iff setScheme_def groups_def Let_def)
  from a r c s show ?thesis by blast
qed

text \<open>
  Claim C5, amended, at the example document, the empty scheme string, and a config whose
  scheme is non-empty and whose bundle identifier is the empty string: the result stores the
  scheme alone.
\<close>

theorem invariant_nonempty_preserved_witness:
  "schemesNonEmpty examplePlist \<and>
   schemesNonEmpty (appendScheme (Some []) examplePlist) \<and>
   schemesNonEmpty (removeScheme (Some []) examplePlist) \<and>
   [] \<notin> set (getScheme emptyBundleConfig) \<and>
   ios emptyBundleConfig = Some \<lparr>scheme = SchemeUndefined, bundleIdentifier = Some []\<rparr> \<and>
   [] \<notin> set (getScheme \<lparr>scheme = SchemeUndefined, bundleIdentifier = Some []\<rparr>) \<and>
   schemesNonEmpty (setScheme emptyBundleConfig examplePlist) \<and>
   groups (setScheme emptyBundleConfig examplePlist) =
     [\<lparr>CFBundleURLName = None, CFBundleURLSchemes = [''myapp'']\<rparr>]"
proof -
  have h: "schemesNonEmpty examplePlist"
    by (simp add: schemesNonEmpty_def groups_def examplePlist_def mainGroup_def loginGroup_def)
  have c1: "[] \<notin> set (getScheme emptyBundleConfig)"
    by (simp add: getScheme_def emptyBundleConfig_def)
  have i: "ios emptyBundleConfig = Some \<lparr>scheme = SchemeUndefined, bundleIdentifier = Some []\<rparr>"
    by (simp add: emptyBundleConfig_def)
  have c2: "[] \<notin> set (getScheme \<lparr>scheme = SchemeUndefined, bundleIdentifier = Some []\<rparr>)"
    by (simp add: getScheme_def)
  have g: "groups (setScheme emptyBundleConfig examplePlist) =
     [\<lparr>CFBundleURLName = None, CFBundleURLSchemes = [''myapp'']\<rparr>]"
    by (simp add: groups_def setScheme_def collectSchemes_def getScheme_def emptyBundleConfig_def)
  show ?thesis
    using h c1 i c2 g invariant_nonempty_preserved[OF h, of "Some []" emptyBundleConfig]
    by simp
qed

text \<open>
  Claim C5 as stated fails for \<open>setScheme\<close> at the empty string:
  \<^verbatim>\<open>setScheme({ scheme: '' }, {})\<close> stores the empty string, since \<open>getScheme\<close> only tests
  \<^verbatim>\<open>typeof\<close> and \<open>setScheme\<close> only the length of the collected list.
\<close>

theorem setScheme_empty_string_counterexample:
  "schemesNonEmpty \<lparr>CFBundleURLTypes = None, otherKeys = []\<rparr> \<and>
   setScheme \<lparr>scheme = SchemeString [], ios = None\<rparr> \<lparr>CFBundleURLTypes = None, otherKeys = []\<rparr> =
     \<lparr>CFBundleURLTypes = Some [\<lparr>CFBundleURLName = None, CFBundleURLSchemes = [[]]\<rparr>],
      otherKeys = []\<rparr> \<and>
   \<not> schemesNonEmpty
       (setScheme \<lparr>scheme = SchemeString [], ios = None\<rparr>
          \<lparr>CFBundleURLTypes = None, otherKeys = []\<rparr>)"
  by (simp add: schemesNonEmpty_def groups_def setScheme_def collectSchemes_def getScheme_def
      emptyIos_def)

text \<open>
  Claim C9. When a group lists the scheme at least twice, \<open>removeScheme\<close> takes exactly the
  first occurrence out of it (none when the scheme is the empty string): that very group,
  with \<open>remove1\<close> applied to its \<open>CFBundleURLSchemes\<close> and nothing else changed, is a group of
  the result; it still lists the scheme and has lost at most one occurrence, so \<open>hasScheme\<close>
  is still true of the result.
\<close>

theorem removeScheme_removes_one_occurrence:
  assumes types: "CFBundleURLTypes infoPlist = Some types"
    and g: "g \<in> set types"
    and twice: "2 \<le> count_list (CFBundleURLSchemes g) s"
  shows "hasScheme s (removeScheme (Some s) infoPlist)
       \<and> (if s = [] then g else g\<lparr>CFBundleURLSchemes := remove1 s (CFBundleURLSchemes g)\<rparr>)
           \<in> set (groups (removeScheme (Some s) infoPlist))
       \<and> s \<in> set (remove1 s (CFBundleURLSchemes g))
       \<and> count_list (remove1 s (CFBundleURLSchemes g)) s = count_list (CFBundleURLSchemes g) s - 1
       \<and> (\<exists>g' \<in> set (groups (removeScheme (Some s) infoPlist)).
             CFBundleURLName g' = CFBundleURLName g \<and>
             s \<in> set (CFBundleURLSchemes g') \<and>
             count_list (CFBundleURLSchemes g) s \<le> Suc (count_list (CFBundleURLSchemes g') s))"
proof -
  have mem: "s \<in> set (CFBundleURLSchemes g)"
    using twice count_list_pos_iff[of "CFBundleURLSchemes g" s] by simp
  have cnt: "count_list (remove1 s (CFBundleURLSchemes g)) s =
             count_list (CFBundleURLSchemes g) s - 1"
    using mem by (rule count_list_remove1)
  then have still: "s \<in> set (remove1 s (CFBundleURLSchemes g))"
    using twice count_list_pos_iff[of "remove1 s (CFBundleURLSchemes g)" s] by simp
  then have ne: "remove1 s (CFBundleURLSchemes g) \<noteq> []" by auto
  show ?thesis
  proof (cases "s = []")
    case True
    then have same: "removeScheme (Some s) infoPlist = infoPlist"
      by (simp add: removeScheme_def)
    have in_grp: "g \<in> set (groups infoPlist)" using types g by (simp add: groups_def)
    then have "hasScheme s infoPlist"
      using mem unfolding hasScheme_groups by blast
    then show ?thesis using True same mem in_grp still cnt by auto
  next
    case False
    let ?g' = "g\<lparr>CFBundleURLSchemes := remove1 s (CFBundleURLSchemes g)\<rparr>"
    have "removeFromGroup s g = Some ?g'"
      using mem ne by (simp add: removeFromGroup_eq)
    then have "Some ?g' \<in> set (map (removeFromGroup s) types)"
      using g by (metis image_eqI set_map)
    then have in_res: "?g' \<in> set (groups (removeScheme (Some s) infoPlist))"
      using False types by (simp add: removeScheme_def groups_def set_filterBoolean)
    have here: "s \<in> set (CFBundleURLSchemes ?g')"
      using still by simp
    with in_res have hs: "hasScheme s (removeScheme (Some s) infoPlist)"
      unfolding hasScheme_groups by blast
    have "CFBundleURLName ?g' = CFBundleURLName g \<and> s \<in> set (CFBundleURLSchemes ?g') \<and>
        count_list (CFBundleURLSchemes g) s \<le> Suc (count_list (CFBundleURLSchemes ?g') s)"
      using still cnt by simp
    with in_res have ex: "\<exists>g' \<in> set (groups (removeScheme (Some s) infoPlist)).
        CFBundleURLName g' = CFBundleURLName g \<and> s \<in> set (CFBundleURLSchemes g') \<and>
        count_list (CFBundleURLSchemes g) s \<le> Suc (count_list (CFBundleURLSchemes g') s)"
      by blast
    from False hs in_res still cnt ex show ?thesis by simp
  qed
qed

text \<open>Claim C9 at the example document, whose first group lists \<open>myapp\<close> twice.\<close>

theorem removeScheme_removes_one_occurrence_witness:
  "CFBundleURLTypes examplePlist = Some [mainGroup, loginGroup] \<and>
   mainGroup \<in> set [mainGroup, loginGroup] \<and>
   2 \<le> count_list (CFBundleURLSchemes mainGroup) ''myapp'' \<and>
   hasScheme ''myapp'' (removeScheme (Some ''myapp'') examplePlist) \<and>
   mainGroup\<lparr>CFBundleURLSchemes := [''exp'', ''myapp'']\<rparr>
     \<in> set (groups (removeScheme (Some ''myapp'') examplePlist)) \<and>
   CFBundleURLTypes (removeScheme (Some ''myapp'') examplePlist) =
     Some [\<lparr>CFBundleURLName = Some ''main'', CFBundleURLSchemes = [''exp'', ''myapp'']\<rparr>, loginGroup]"
proof -
  have h1: "CFBundleURLTypes examplePlist = Some [mainGroup, loginGroup]"
    by (simp add: examplePlist_def)
  have h2: "mainGroup \<in> set [mainGroup, loginGroup]" by simp
  have h3: "2 \<le> count_list (CFBundleURLSchemes mainGroup) ''myapp''"
    by (simp add: mainGroup_def)
  have r: "CFBundleURLTypes (removeScheme (Some ''myapp'') examplePlist) =
     Some [\<lparr>CFBundleURLName = Some ''main'', CFBundleURLSchemes = [''exp'', ''myapp'']\<rparr>, loginGroup]"
    by (simp add: removeScheme_def removeFromGroup_def indexOf_def splice1_def
        examplePlist_def mainGroup_def loginGroup_def)
  have m: "remove1 ''myapp'' (CFBundleURLSchemes mainGroup) = [''exp'', ''myapp'']"
    by (simp add: mainGroup_def)
  show ?thesis
    using h1 h2 h3 r removeScheme_removes_one_occurrence[OF h1 h2 h3]
    by (simp add: m)
qed

text \<open>
  Claim C10. When the list \<open>setScheme\<close> collects from the config (the schemes of the config,
  those of its \<open>ios\<close> section, then the bundle identifier if it is a non-empty string) is not
  empty, the result's \<open>CFBundleURLTypes\<close> is exactly one group holding that list, whatever
  groups the document had, and the other keys are unchanged; when the list is empty, the
  document is returned unchanged.
\<close>

theorem setScheme_replaces_groups:
  "(collectSchemes config \<noteq> [] \<longrightarrow>
      setScheme config infoPlist =
        \<lparr>CFBundleURLTypes = Some [\<lparr>CFBundleURLName = None,
                                   CFBundleURLSchemes = collectSchemes config\<rparr>],
         otherKeys = otherKeys infoPlist\<rparr>)
   \<and> (collectSchemes config = [] \<longrightarrow> setScheme config infoPlist = infoPlist)
   \<and> collectSchemes config =
       getScheme config @
       (case ios config of
          None \<Rightarrow> []
        | Some i \<Rightarrow> getScheme i @
            (case bundleIdentifier i of None \<Rightarrow> [] | Some b \<Rightarrow> if b = [] then [] else [b]))"
  by (cases infoPlist)
     (auto simp: setScheme_def collectSchemes_def Let_def getScheme_def emptyIos_def
       split: option.splits)

text \<open>
  Claim C10 at the example config (four collected schemes) and at a config that yields none
  (a number in the scheme array, an empty bundle identifier).
\<close>

theorem setScheme_replaces_groups_witness:
  "collectSchemes exampleConfig = [''myapp'', ''exp'', ''ios-only'', ''com.example.app''] \<and>
   collectSchemes exampleConfig \<noteq> [] \<and>
   setScheme exampleConfig examplePlist =
     \<lparr>CFBundleURLTypes =
        Some [\<lparr>CFBundleURLName = None,
               CFBundleURLSchemes = [''myapp'', ''exp'', ''ios-only'', ''com.example.app'']\<rparr>],
      otherKeys = [(''CFBundleName'', JString ''app'')]\<rparr> \<and>
   collectSchemes silentConfig = [] \<and>
   setScheme silentConfig examplePlist = examplePlist"
proof -
  have c: "collectSchemes exampleConfig = [''myapp'', ''exp'', ''ios-only'', ''com.example.app'']"
    by (simp add: collectSchemes_def getScheme_def exampleConfig_def)
  have e: "collectSchemes silentConfig = []"
    by (simp add: collectSchemes_def getScheme_def silentConfig_def)
  show ?thesis
    using c e setScheme_replaces_groups[of exampleConfig examplePlist]
      setScheme_replaces_groups[of silentConfig examplePlist]
    by (simp add: examplePlist_def)
qed

section \<open>Properties of the version-control helper\<close>

text \<open>The scripted operator only ever gets a value past the prompt that the callback accepted.\<close>

lemma scriptedText_validated:
  "scriptedText xs message initial validateInput = Inr r \<Longrightarrow> validateInput r"
  by (induction xs) (auto split: if_splits)

text \<open>
  Claim C6. When the \<open>status\<close> subcommand has run and printed \<open>changes\<close>,
  \<open>ensureGitStatusIsCleanAsync\<close> throws exactly when \<open>changes\<close> is non-empty, the error is the
  \<open>DirtyGitTreeError\<close> with its message, and with empty output the function returns normally.
  In every run, a \<open>DirtyGitTreeError\<close> is thrown exactly when the subcommand printed a
  non-empty output.
\<close>

theorem ensureGitStatusIsClean_iff:
  "(spawnResult env ''git'' [''status'', ''-s'', ''-uno''] = Some changes \<longrightarrow>
      ((fst (ensureGitStatusIsCleanAsync env tr) =
          Inl (DirtyGitTreeError
                 ''Please commit all changes before building your project. Aborting...''))
         = (changes \<noteq> []))
      \<and> ((\<exists>e. fst (ensureGitStatusIsCleanAsync env tr) = Inl e) = (changes \<noteq> []))
      \<and> ((fst (ensureGitStatusIsCleanAsync env tr) = Inr ()) = (changes = [])))
   \<and> ((\<exists>m. fst (ensureGitStatusIsCleanAsync env tr) = Inl (DirtyGitTreeError m)) =
        (\<exists>out. spawnResult env ''git'' [''status'', ''-s'', ''-uno''] = Some out \<and> out \<noteq> []))"
  by (auto simp: ensureGitStatusIsCleanAsync_def spawnAsync_def split: option.splits)

text \<open>Claim C6 at a repository with one modified file and at one with a clean tree.\<close>

theorem ensureGitStatusIsClean_iff_witness:
  "spawnResult dirtyTreeEnv ''git'' [''status'', ''-s'', ''-uno''] = Some '' M app.json'' \<and>
   fst (ensureGitStatusIsCleanAsync dirtyTreeEnv []) =
     Inl (DirtyGitTreeError
            ''Please commit all changes before building your project. Aborting...'') \<and>
   spawnResult cleanTreeEnv ''git'' [''status'', ''-s'', ''-uno''] = Some [] \<and>
   fst (ensureGitStatusIsCleanAsync cleanTreeEnv []) = Inr ()"
proof -
  have d: "spawnResult dirtyTreeEnv ''git'' [''status'', ''-s'', ''-uno''] = Some '' M app.json''"
    by (simp add: dirtyTreeEnv_def)
  have c: "spawnResult cleanTreeEnv ''git'' [''status'', ''-s'', ''-uno''] = Some []"
    by (simp add: cleanTreeEnv_def)
  show ?thesis
    using d c ensureGitStatusIsClean_iff[of dirtyTreeEnv "'' M app.json''" "[]"]
      ensureGitStatusIsClean_iff[of cleanTreeEnv "[]" "[]"]
    by simp
qed

text \<open>
  Claim C7. When no repository exists (\<open>rev-parse\<close> fails) and the operator declines the
  initialization prompt, \<open>ensureGitRepoExists\<close> throws an error with a message and invokes no
  \<open>init\<close>, \<open>add\<close> or \<open>commit\<close> subcommand; if the tool was found, the error is the one that
  asks for a repository. In every run, a mutation is invoked only if the operator confirmed,
  and the confirm prompt precedes the first mutation in the trace.
\<close>

theorem ensureGitRepoExists_declined:
  "(spawnResult env ''git'' [''rev-parse'', ''--git-dir''] = None \<and>
    confirmResult env ''Would you like to run 'git init' in the current directory?'' = Inr False
    \<longrightarrow> (\<exists>m. fst (ensureGitRepoExists env tr) = Inl (Error m) \<and> m \<noteq> [])
      \<and> \<not> list_ex isMutation (newEvents tr (ensureGitRepoExists env tr))
      \<and> (truthy (whichGit env) \<longrightarrow>
           fst (ensureGitRepoExists env tr) =
             Inl (Error ''A git repository is required for building your project. Initialize it and run this command again.'')))
   \<and> (list_ex isMutation (newEvents tr (ensureGitRepoExists env tr))
      \<longrightarrow> confirmResult env ''Would you like to run 'git init' in the current directory?'' = Inr True
        \<and> PromptConfirm ''Would you like to run 'git init' in the current directory?''
            \<in> set (takeWhile (\<lambda>e. \<not> isMutation e) (newEvents tr (ensureGitRepoExists env tr))))"
  by (simp add: ensureGitRepoExists_def doesGitRepoExist_def spawnAsync_def promptsConfirm_def
      promptsText_def newEvents_def Let_def
      split: option.split sum.split)

text \<open>
  Claim C7 at a directory without a repository: with an operator who declines, and with one
  who confirms (where the mutations run).
\<close>

theorem ensureGitRepoExists_declined_witness:
  "spawnResult noRepoDeclineEnv ''git'' [''rev-parse'', ''--git-dir''] = None \<and>
   confirmResult noRepoDeclineEnv ''Would you like to run 'git init' in the current directory?''
     = Inr False \<and>
   truthy (whichGit noRepoDeclineEnv) \<and>
   fst (ensureGitRepoExists noRepoDeclineEnv []) =
     Inl (Error ''A git repository is required for building your project. Initialize it and run this command again.'') \<and>
   \<not> list_ex isMutation (newEvents [] (ensureGitRepoExists noRepoDeclineEnv [])) \<and>
   list_ex isMutation (newEvents [] (ensureGitRepoExists noRepoConfirmEnv [])) \<and>
   confirmResult noRepoConfirmEnv ''Would you like to run 'git init' in the current directory?''
     = Inr True"
proof -
  have h1: "spawnResult noRepoDeclineEnv ''git'' [''rev-parse'', ''--git-dir''] = None"
    by (simp add: noRepoDeclineEnv_def)
  have h2: "confirmResult noRepoDeclineEnv
              ''Would you like to run 'git init' in the current directory?'' = Inr False"
    by (simp add: noRepoDeclineEnv_def)
  have h3: "truthy (whichGit noRepoDeclineEnv)"
    by (simp add: noRepoDeclineEnv_def)
  have h4: "list_ex isMutation (newEvents [] (ensureGitRepoExists noRepoConfirmEnv []))"
    by (simp add: ensureGitRepoExists_def doesGitRepoExist_def spawnAsync_def promptsConfirm_def
      promptsText_def newEvents_def Let_def noRepoConfirmEnv_def)
  show ?thesis
    using h1 h2 h3 h4 ensureGitRepoExists_declined[of noRepoDeclineEnv "[]"]
      ensureGitRepoExists_declined[of noRepoConfirmEnv "[]"]
    by simp
qed

text \<open>
  Claim C8, amended. The flows throw no error of their own for an empty commit message. Each
  flow gives the text prompt an initial value (\<open>Initial commit\<close>, respectively the commit
  message it was called with) and the \<open>validate\<close> callback \<^verbatim>\<open>input !== ''\<close>, and commits with the
  value the prompt resolves to; with a prompt that resolves only to values its callback
  accepted, that value is non-empty. The only errors the flows throw are their own for a
  missing tool, a declined confirmation and the non-interactive mode, the error of a prompt,
  and the rejection of a subprocess.
\<close>

theorem commit_message_validated:
  assumes "\<forall>message initial validateInput r.
             textResult env message initial validateInput = Inr r \<longrightarrow> validateInput r"
  shows "(Spawn ''git'' [''commit'', ''-m'', m] \<in> set (newEvents tr (ensureGitRepoExists env tr))
            \<longrightarrow> textResult env ''Commit message:'' ''Initial commit'' (\<lambda>input. input \<noteq> []) = Inr m
              \<and> m \<noteq> [])
       \<and> (Spawn ''git'' [''commit'', ''-m'', m]
             \<in> set (newEvents tr (reviewAndCommitChangesAsync env commitMessage nonInteractive tr))
            \<longrightarrow> textResult env ''Commit message:'' commitMessage (\<lambda>input. input \<noteq> []) = Inr m
              \<and> m \<noteq> [])
       \<and> (fst (ensureGitRepoExists env tr) = Inl e
            \<longrightarrow> e = Error ''git command has not been found, install it before proceeding''
              \<or> e = Error ''A git repository is required for building your project. Initialize it and run this command again.''
              \<or> confirmResult env ''Would you like to run 'git init' in the current directory?''
                  = Inl e
              \<or> textResult env ''Commit message:'' ''Initial commit'' (\<lambda>input. input \<noteq> []) = Inl e
              \<or> (\<exists>args. e = SpawnRejected ''git'' args))
       \<and> (fst (reviewAndCommitChangesAsync env commitMessage nonInteractive tr) = Inl e
            \<longrightarrow> e = CommandError ''Cannot commit changes when --non-interactive is specified. Run the command in interactive mode to review and commit changes.''
              \<or> e = Error ''Aborting commit. Please review and commit the changes manually.''
              \<or> confirmResult env ''Can we commit these changes for you?'' = Inl e
              \<or> textResult env ''Commit message:'' commitMessage (\<lambda>input. input \<noteq> []) = Inl e
              \<or> (\<exists>args. e = SpawnRejected ''git'' args))"
proof -
  define notFound where
    "notFound = ''git command has not been found, install it before proceeding''"
  define required where
    "required = ''A git repository is required for building your project. Initialize it and run this command again.''"
  define question where
    "question = ''Would you like to run 'git init' in the current directory?''"
  define log1 where "log1 = ''It looks like you haven't initialized the git repository yet.''"
  define log2 where "log2 = ''EAS Build require you to use a git repository for your project.''"
  define log3 where "log3 = ''We're going to make an initial commit for you repository.''"
  note repo_fold = notFound_def[symmetric] required_def[symmetric] question_def[symmetric]
    log1_def[symmetric] log2_def[symmetric] log3_def[symmetric]
  define refused where
    "refused = ''Cannot commit changes when --non-interactive is specified. Run the command in interactive mode to review and commit changes.''"
  define aborting where
    "aborting = ''Aborting commit. Please review and commit the changes manually.''"
  define canWe where "canWe = ''Can we commit these changes for you?''"
  define review where
    "review = ''Please review the following changes and pass the message to make the commit.''"
  note review_fold = refused_def[symmetric] aborting_def[symmetric] canWe_def[symmetric]
    review_def[symmetric]
  have v: "\<And>message initial r.
      textResult env message initial (\<lambda>input. input \<noteq> []) = Inr r \<Longrightarrow> r \<noteq> []"
    using assms by blast
  have a: "Spawn ''git'' [''commit'', ''-m'', m] \<in> set (newEvents tr (ensureGitRepoExists env tr))
            \<longrightarrow> textResult env ''Commit message:'' ''Initial commit'' (\<lambda>input. input \<noteq> []) = Inr m
              \<and> m \<noteq> []"
    unfolding ensureGitRepoExists_def doesGitRepoExist_def spawnAsync_def promptsConfirm_def
      promptsText_def newEvents_def Let_def repo_fold
    by (auto dest: v split: option.split sum.split)
  have b: "Spawn ''git'' [''commit'', ''-m'', m]
             \<in> set (newEvents tr (reviewAndCommitChangesAsync env commitMessage nonInteractive tr))
            \<longrightarrow> textResult env ''Commit message:'' commitMessage (\<lambda>input. input \<noteq> []) = Inr m
              \<and> m \<noteq> []"
    unfolding reviewAndCommitChangesAsync_def showDiffAsync_def spawnAsync_def
      promptsConfirm_def promptsText_def newEvents_def Let_def review_fold
    by (auto dest: v split: option.split sum.split)
  have c: "fst (ensureGitRepoExists env tr) = Inl e
            \<longrightarrow> e = Error ''git command has not been found, install it before proceeding''
              \<or> e = Error ''A git repository is required for building your project. Initialize it and run this command again.''
              \<or> confirmResult env ''Would you like to run 'git init' in the current directory?''
                  = Inl e
              \<or> textResult env ''Commit message:'' ''Initial commit'' (\<lambda>input. input \<noteq> []) = Inl e
              \<or> (\<exists>args. e = SpawnRejected ''git'' args)"
    unfolding ensureGitRepoExists_def doesGitRepoExist_def spawnAsync_def promptsConfirm_def
      promptsText_def Let_def repo_fold
    by (auto split: option.split sum.split)
  have d: "fst (reviewAndCommitChangesAsync env commitMessage nonInteractive tr) = Inl e
            \<longrightarrow> e = CommandError ''Cannot commit changes when --non-interactive is specified. Run the command in interactive mode to review and commit changes.''
              \<or> e = Error ''Aborting commit. Please review and commit the changes manually.''
              \<or> confirmResult env ''Can we commit these changes for you?'' = Inl e
              \<or> textResult env ''Commit message:'' commitMessage (\<lambda>input. input \<noteq> []) = Inl e
              \<or> (\<exists>args. e = SpawnRejected ''git'' args)"
    unfolding reviewAndCommitChangesAsync_def showDiffAsync_def spawnAsync_def
      promptsConfirm_def promptsText_def Let_def review_fold
    by (auto split: option.split sum.split)
  show ?thesis
    by (rule conjI[OF a conjI[OF b conjI[OF c d]]])
qed

text \<open>
  Claim C8, amended, at the operator who submits an empty line and then \<open>wip\<close>:
  \<open>ensureGitRepoExists\<close> commits with the initial value, \<open>reviewAndCommitChangesAsync\<close> called
  with an empty commit message commits with \<open>wip\<close>, and called in non-interactive mode it
  throws its own error.
\<close>

theorem commit_message_validated_witness:
  "textResult emptyThenWipEnv = scriptedText [[], ''wip''] \<and>
   Spawn ''git'' [''commit'', ''-m'', ''Initial commit'']
     \<in> set (newEvents [] (ensureGitRepoExists emptyThenWipEnv [])) \<and>
   textResult emptyThenWipEnv ''Commit message:'' ''Initial commit'' (\<lambda>input. input \<noteq> [])
     = Inr ''Initial commit'' \<and>
   Spawn ''git'' [''commit'', ''-m'', ''wip'']
     \<in> set (newEvents [] (reviewAndCommitChangesAsync emptyThenWipEnv [] False [])) \<and>
   textResult emptyThenWipEnv ''Commit message:'' [] (\<lambda>input. input \<noteq> []) = Inr ''wip'' \<and>
   fst (reviewAndCommitChangesAsync emptyThenWipEnv [] True []) =
     Inl (CommandError ''Cannot commit changes when --non-interactive is specified. Run the command in interactive mode to review and commit changes.'')"
proof -
  have t: "textResult emptyThenWipEnv = scriptedText [[], ''wip'']"
    by (simp add: emptyThenWipEnv_def)
  have h: "\<forall>message initial validateInput r.
      textResult emptyThenWipEnv message initial validateInput = Inr r \<longrightarrow> validateInput r"
    unfolding t using scriptedText_validated by blast
  have e: "Spawn ''git'' [''commit'', ''-m'', ''Initial commit'']
     \<in> set (newEvents [] (ensureGitRepoExists emptyThenWipEnv []))"
    by (simp add: ensureGitRepoExists_def doesGitRepoExist_def spawnAsync_def promptsConfirm_def
        promptsText_def newEvents_def Let_def emptyThenWipEnv_def)
  have r: "Spawn ''git'' [''commit'', ''-m'', ''wip'']
     \<in> set (newEvents [] (reviewAndCommitChangesAsync emptyThenWipEnv [] False []))"
    by (simp add: reviewAndCommitChangesAsync_def showDiffAsync_def spawnAsync_def
        promptsConfirm_def promptsText_def newEvents_def Let_def emptyThenWipEnv_def)
  have n: "fst (reviewAndCommitChangesAsync emptyThenWipEnv [] True []) =
     Inl (CommandError ''Cannot commit changes when --non-interactive is specified. Run the command in interactive mode to review and commit changes.'')"
    by (simp add: reviewAndCommitChangesAsync_def)
  note T1 = commit_message_validated[OF h, where m = "''Initial commit''" and tr = "[]"
      and commitMessage = "[]" and nonInteractive = False and e = PromptRejected]
  note T2 = commit_message_validated[OF h, where m = "''wip''" and tr = "[]"
      and commitMessage = "[]" and nonInteractive = False and e = PromptRejected]
  have w1: "textResult emptyThenWipEnv ''Commit message:'' ''Initial commit''
              (\<lambda>input. input \<noteq> []) = Inr ''Initial commit''"
    using e T1[THEN conjunct1] by blast
  have w2: "textResult emptyThenWipEnv ''Commit message:'' [] (\<lambda>input. input \<noteq> []) = Inr ''wip''"
    using r T2[THEN conjunct2, THEN conjunct1] by blast
  show ?thesis
    by (intro conjI t e w1 r w2 n)
qed

text \<open>
  Claim C8 as stated fails: the operator of this environment submits an empty commit
  message first, and no flow throws. \<open>ensureGitRepoExists\<close> commits with the initial value of
  its prompt; \<open>reviewAndCommitChangesAsync\<close> commits with the message it was called with and,
  when that is empty too, is asked again and commits with the line submitted next.
\<close>

theorem empty_commit_message_counterexample:
  "textResult emptyThenWipEnv = scriptedText [[], ''wip''] \<and>
   fst (ensureGitRepoExists emptyThenWipEnv []) = Inr () \<and>
   Spawn ''git'' [''commit'', ''-m'', ''Initial commit'']
     \<in> set (snd (ensureGitRepoExists emptyThenWipEnv [])) \<and>
   fst (reviewAndCommitChangesAsync emptyThenWipEnv ''Configure build'' False []) = Inr () \<and>
   Spawn ''git'' [''commit'', ''-m'', ''Configure build'']
     \<in> set (snd (reviewAndCommitChangesAsync emptyThenWipEnv ''Configure build'' False [])) \<and>
   fst (reviewAndCommitChangesAsync emptyThenWipEnv [] False []) = Inr () \<and>
   snd (reviewAndCommitChangesAsync emptyThenWipEnv [] False []) =
     [Log ''Please review the following changes and pass the message to make the commit.'',
      NewLine, Spawn ''git'' [''--no-pager'', ''diff''], NewLine,
      PromptConfirm ''Can we commit these changes for you?'',
      PromptText ''Commit message:'' [], Spawn ''git'' [''add'', ''-u''],
      Spawn ''git'' [''commit'', ''-m'', ''wip'']]"
  by (simp add: ensureGitRepoExists_def reviewAndCommitChangesAsync_def doesGitRepoExist_def
      showDiffAsync_def spawnAsync_def promptsConfirm_def promptsText_def Let_def
      emptyThenWipEnv_def)

end
